theory Spec2Isabelle
  imports Complex_Main "HOL-Library.Sublist"
begin

section \<open>Values, thrown errors and HTTP statuses\<close>

text \<open>
  The two source files (\<^verbatim>\<open>user.service.ts\<close>, \<^verbatim>\<open>auth.controller.ts\<close>) orchestrate calls
  to three external collaborators: the identity provider (\<^verbatim>\<open>dbAuth\<close>), the document store
  (\<^verbatim>\<open>db\<close>) and the SMTP transport (nodemailer). The collaborators are not part of the
  program. Their answers are therefore fields of a record \<open>world\<close>; every operation is a
  function of the world and returns its result (a thrown value is \<open>Inl\<close>) together with the
  list of calls it issued, in order. Within one operation each collaborator function is
  called at most once per argument (the clock apart, which is indexed by the number of the
  read), so any behaviour of real collaborators during one operation is some \<open>world\<close>.
\<close>

datatype HttpStatus = BAD_REQUEST | UNAUTHORIZED | NOT_FOUND | INTERNAL_SERVER_ERROR

fun status_code :: "HttpStatus \<Rightarrow> nat" where
  "status_code BAD_REQUEST = 400"
| "status_code UNAUTHORIZED = 401"
| "status_code NOT_FOUND = 404"
| "status_code INTERNAL_SERVER_ERROR = 500"

text \<open>
  A thrown JavaScript value: the framework's \<^verbatim>\<open>HttpException(message, status)\<close>, or any other
  value, of which the code reads only \<^verbatim>\<open>err?.code\<close> and \<^verbatim>\<open>err?.message\<close> (each may be absent).
\<close>

datatype thrown =
    HttpException string HttpStatus
  | JsError "string option" "string option"

fun err_code :: "thrown \<Rightarrow> string option" where
  "err_code (HttpException m s) = None"
| "err_code (JsError c m) = c"

fun err_message :: "thrown \<Rightarrow> string option" where
  "err_message (HttpException m s) = Some m"
| "err_message (JsError c m) = m"

text \<open>\<^verbatim>\<open>String.prototype.includes\<close>: the needle occurs as a contiguous substring.\<close>

fun str_includes :: "string \<Rightarrow> string \<Rightarrow> bool" where
  "str_includes [] p = (p = [])"
| "str_includes (c # cs) p = (prefix p (c # cs) \<or> str_includes cs p)"

text \<open>
  A JavaScript number as far as the code looks at it: \<^verbatim>\<open>Number(s)\<close> may be \<^verbatim>\<open>NaN\<close>, infinite
  or finite; it is falsy exactly when it is \<^verbatim>\<open>NaN\<close> or zero.
\<close>

datatype jsnumber = NaN | PosInfinity | NegInfinity | Finite rat

fun truthy_number :: "jsnumber \<Rightarrow> bool" where
  "truthy_number NaN = False"
| "truthy_number PosInfinity = True"
| "truthy_number NegInfinity = True"
| "truthy_number (Finite q) = (q \<noteq> 0)"

text \<open>An environment variable or optional string is truthy when defined and non-empty.\<close>

fun truthy_string :: "string option \<Rightarrow> bool" where
  "truthy_string None = False"
| "truthy_string (Some s) = (s \<noteq> [])"

datatype jsval =
    JUndefined
  | JNull
  | JBool bool
  | JNum int
  | JStr string
  | JTimestamp nat
  | JArr "jsval list"

type_synonym DocumentData = "string \<rightharpoonup> jsval"

text \<open>Property access \<^verbatim>\<open>data.k\<close>: a missing property reads as \<^verbatim>\<open>undefined\<close>.\<close>

definition get_prop :: "DocumentData \<Rightarrow> string \<Rightarrow> jsval" where
  "get_prop d k = (case d k of None \<Rightarrow> JUndefined | Some v \<Rightarrow> v)"

text \<open>
  Modelled from the spec: the declaration of the enum \<^verbatim>\<open>UserRole\<close> (\<^verbatim>\<open>user.model.ts\<close>) is
  not among the sources; the spec gives the stored value of \<^verbatim>\<open>UserRole.USER\<close> as
  \<^verbatim>\<open>role:"USER"\<close>.
\<close>

definition UserRole_USER :: jsval where
  "UserRole_USER = JStr ''USER''"

text \<open>
  Modelled from the spec: the declaration of the type \<^verbatim>\<open>UserDoc\<close> (\<^verbatim>\<open>user.model.ts\<close>) is
  not among the sources; its properties are those of the spec's \<^verbatim>\<open>UserProfile\<close>, which are
  also the ones \<^verbatim>\<open>create\<close> writes and returns.
\<close>

definition UserDoc_fields :: "string set" where
  "UserDoc_fields = {''uid'', ''email'', ''fullName'', ''phoneNumber'', ''createdAt'',
                     ''lastLogin'', ''purchases'', ''role''}"

section \<open>The collaborators\<close>

datatype UserRecord = UserRecord (record_uid: string)

record CreateUserDTO =
  fullName :: string
  email :: string
  password :: string
  phoneNumber :: "string option"

record ActionCodeSettings =
  url :: string
  handleCodeInApp :: bool

record TransportOptions =
  smtp_host :: string
  smtp_port :: jsnumber
  smtp_secure :: bool
  auth_user :: string
  auth_pass :: string

record MailOptions =
  mail_from :: string
  mail_to :: string
  mail_subject :: string
  mail_html :: string

record CookieOptions =
  httpOnly :: bool
  sameSite :: string
  maxAge :: nat
  cookie_secure :: bool
  cookie_path :: string

record LoginDto =
  login_email :: string
  login_password :: string

text \<open>
  The result of \<^verbatim>\<open>AuthService.login\<close> (not among the sources): the controller reads
  \<^verbatim>\<open>result.idToken\<close> and \<^verbatim>\<open>result.user.role\<close>, a string-valued enum member or undefined.
\<close>

record LoginResult =
  idToken :: string
  user_role :: "string option"

datatype console =
    LogEmailSent string
  | WarnSmtpNotConfigured string
  | ErrFailedToSendVerification thrown
  | WarnFailedToQueue thrown
  | ErrCreatingUser thrown
  | ErrResendingVerification thrown
  | ErrSavingUser thrown
  | ErrFailedToResendLink thrown

datatype effect =
    CreateUser string string string
  | GetUserByEmail string
  | GenerateLink string ActionCodeSettings
  | SendMail TransportOptions MailOptions
  | DocGet string
  | DocSet string DocumentData
  | DocDelete string
  | Console console
  | AuthLogin LoginDto
  | ResCookie string string CookieOptions

record world =
  env :: "string \<rightharpoonup> string"
  Number :: "string \<Rightarrow> jsnumber"
  now :: "nat \<Rightarrow> nat"
  createUser :: "string \<Rightarrow> string \<Rightarrow> string \<Rightarrow> thrown + UserRecord option"
  getUserByEmail :: "string \<Rightarrow> thrown + UserRecord"
  generateEmailVerificationLink :: "string \<Rightarrow> ActionCodeSettings \<Rightarrow> thrown + string"
  sendMail :: "TransportOptions \<Rightarrow> MailOptions \<Rightarrow> thrown + string"
  doc_get :: "string \<Rightarrow> thrown + DocumentData option"
  doc_set :: "string \<Rightarrow> DocumentData \<Rightarrow> thrown option"
  doc_delete :: "string \<Rightarrow> thrown option"
  authSvc_login :: "LoginDto \<Rightarrow> thrown + LoginResult"
  res_cookie :: "string \<Rightarrow> string \<Rightarrow> CookieOptions \<Rightarrow> thrown option"

text \<open>
  \<open>env\<close> is \<^verbatim>\<open>process.env\<close>; \<open>Number\<close> is the platform's string-to-number conversion;
  \<open>now w n\<close> is what the \<open>n\<close>-th call of \<^verbatim>\<open>Timestamp.now()\<close> inside one operation returns;
  \<open>createUser\<close> may throw or resolve to a (possibly absent) record; \<open>doc_get\<close> may throw or
  resolve to a snapshot, whose data is absent when the document does not exist;
  \<open>doc_set\<close>, \<open>doc_delete\<close> and \<open>res_cookie\<close> throw (\<open>Some\<close>) or complete (\<open>None\<close>).
\<close>

text \<open>A write was acknowledged: the call was issued and the store did not raise.\<close>

definition persisted :: "world \<Rightarrow> effect list \<Rightarrow> string \<Rightarrow> DocumentData \<Rightarrow> bool" where
  "persisted w tr k d = (DocSet k d \<in> set tr \<and> doc_set w k d = None)"

fun is_write :: "effect \<Rightarrow> bool" where
  "is_write (DocSet k d) = True"
| "is_write (DocDelete k) = True"
| "is_write e = False"

fun is_smtp :: "effect \<Rightarrow> bool" where
  "is_smtp (SendMail t m) = True"
| "is_smtp e = False"

text \<open>
  The content of a store that starts as \<open>s\<close> and applies the acknowledged writes of a
  trace in order.
\<close>

fun store_after :: "world \<Rightarrow> effect list \<Rightarrow> (string \<rightharpoonup> DocumentData) \<Rightarrow> (string \<rightharpoonup> DocumentData)" where
  "store_after w [] s = s"
| "store_after w (DocSet k d # tr) s =
     store_after w tr (if doc_set w k d = None then s(k \<mapsto> d) else s)"
| "store_after w (DocDelete k # tr) s =
     store_after w tr (if doc_delete w k = None then s(k := None) else s)"
| "store_after w (e # tr) s = store_after w tr s"

section \<open>Verification email dispatch (user.service.ts)\<close>

definition actionCodeSettings :: "world \<Rightarrow> ActionCodeSettings" where
  "actionCodeSettings w =
     \<lparr> url = (if truthy_string (env w ''FRONTEND_URL'')
              then the (env w ''FRONTEND_URL'') @ ''/signin''
              else ''http://localhost:3000/signin''),
       handleCodeInApp = False \<rparr>"

text \<open>
  \<^verbatim>\<open>const port = process.env.SMTP_PORT ? Number(process.env.SMTP_PORT) : undefined\<close>
\<close>

definition smtp_port_of :: "world \<Rightarrow> jsnumber option" where
  "smtp_port_of w =
     (if truthy_string (env w ''SMTP_PORT'') then Some (Number w (the (env w ''SMTP_PORT'')))
      else None)"

text \<open>
  \<^verbatim>\<open>if (host && port && user && pass)\<close>, followed by the options handed to
  \<^verbatim>\<open>createTransport\<close>; \<open>None\<close> is the fall-through to the logging branch. Both source files
  contain this text verbatim.
\<close>

definition smtp_transport :: "world \<Rightarrow> TransportOptions option" where
  "smtp_transport w =
     (if truthy_string (env w ''SMTP_HOST'')
         \<and> (case smtp_port_of w of None \<Rightarrow> False | Some p \<Rightarrow> truthy_number p)
         \<and> truthy_string (env w ''SMTP_USER'')
         \<and> truthy_string (env w ''SMTP_PASS'')
      then Some \<lparr> smtp_host = the (env w ''SMTP_HOST''),
                  smtp_port = the (smtp_port_of w),
                  smtp_secure = (the (smtp_port_of w) = Finite 465),
                  auth_user = the (env w ''SMTP_USER''),
                  auth_pass = the (env w ''SMTP_PASS'') \<rparr>
      else None)"

definition mail_sender :: "world \<Rightarrow> string" where
  "mail_sender w =
     (if truthy_string (env w ''EMAIL_FROM'') then the (env w ''EMAIL_FROM'')
      else ''no-reply@'' @
        (if truthy_string (env w ''FRONTEND_BASE_DOMAIN'') then the (env w ''FRONTEND_BASE_DOMAIN'')
         else ''localhost''))"

definition service_html :: "string \<Rightarrow> string" where
  "service_html link =
     ''<p>Hello,</p>'' @ [CHR 0x0A] @
     ''<p>Thanks for creating an account. Please verify your email by clicking the link below:</p>''
       @ [CHR 0x0A] @
     ''<p><a href='' @ [CHR 0x22] @ link @ [CHR 0x22] @ ''>Verify Email</a></p>'' @ [CHR 0x0A] @
     ''<p>If the link doesn'' @ [CHR 0x27] @
       ''t work, copy and paste the following URL into your browser:</p>'' @ [CHR 0x0A] @
     ''<pre>'' @ link @ ''</pre>'' @ [CHR 0x0A] @
     ''<p>Thanks,<br/>Sure Proxies Team</p>''"

text \<open>The message handed to \<^verbatim>\<open>transporter.sendMail\<close> by the service.\<close>

definition service_mail :: "world \<Rightarrow> string \<Rightarrow> string \<Rightarrow> MailOptions" where
  "service_mail w em link =
     \<lparr> mail_from = mail_sender w, mail_to = em,
       mail_subject = ''Verify your email for Sure Proxies'',
       mail_html = service_html link \<rparr>"

text \<open>The body of the \<^verbatim>\<open>try\<close> block of \<^verbatim>\<open>sendEmailVerification\<close>.\<close>

definition sendEmailVerification_try :: "world \<Rightarrow> string \<Rightarrow> string \<Rightarrow> (thrown + unit) \<times> effect list" where
  "sendEmailVerification_try w u em =
     (case generateEmailVerificationLink w em (actionCodeSettings w) of
        Inl err \<Rightarrow> (Inl err, [GenerateLink em (actionCodeSettings w)])
      | Inr link \<Rightarrow>
          (case smtp_transport w of
             Some t \<Rightarrow>
               (let m = service_mail w em link
                in case sendMail w t m of
                     Inl err \<Rightarrow> (Inl err, [GenerateLink em (actionCodeSettings w), SendMail t m])
                   | Inr messageId \<Rightarrow>
                       (Inr (), [GenerateLink em (actionCodeSettings w), SendMail t m,
                                 Console (LogEmailSent messageId)]))
           | None \<Rightarrow>
               (Inr (), [GenerateLink em (actionCodeSettings w),
                         Console (WarnSmtpNotConfigured link)])))"

text \<open>The \<^verbatim>\<open>catch\<close> of \<^verbatim>\<open>sendEmailVerification\<close> logs and does not rethrow.\<close>

definition sendEmailVerification :: "world \<Rightarrow> string \<Rightarrow> string \<Rightarrow> (thrown + unit) \<times> effect list" where
  "sendEmailVerification w u em =
     (case sendEmailVerification_try w u em of
        (Inl err, tr) \<Rightarrow> (Inr (), tr @ [Console (ErrFailedToSendVerification err)])
      | (Inr x, tr) \<Rightarrow> (Inr x, tr))"

definition resendVerification :: "world \<Rightarrow> string \<Rightarrow> (thrown + unit) \<times> effect list" where
  "resendVerification w em =
     (case getUserByEmail w em of
        Inl err \<Rightarrow>
          (Inl (HttpException ''Account not found'' NOT_FOUND),
           [GetUserByEmail em,
            Console (ErrResendingVerification (HttpException ''Account not found'' NOT_FOUND))])
      | Inr usr \<Rightarrow>
          (case sendEmailVerification w (record_uid usr) em of
             (Inl err, tr) \<Rightarrow>
               (Inl err, GetUserByEmail em # tr @ [Console (ErrResendingVerification err)])
           | (Inr x, tr) \<Rightarrow> (Inr x, GetUserByEmail em # tr)))"

section \<open>Account provisioning and profile update (user.service.ts)\<close>

definition saveUser :: "world \<Rightarrow> string \<Rightarrow> DocumentData \<Rightarrow> (thrown + unit) \<times> effect list" where
  "saveUser w userId userData =
     (case doc_set w userId userData of
        None \<Rightarrow> (Inr (), [DocSet userId userData])
      | Some error \<Rightarrow>
          (Inl (HttpException ''Unable to save account information. Please try again.''
                  INTERNAL_SERVER_ERROR),
           [DocSet userId userData, Console (ErrSavingUser error)]))"

text \<open>The profile object literal handed to \<^verbatim>\<open>saveUser\<close> by \<^verbatim>\<open>create\<close>.\<close>

definition new_profile :: "world \<Rightarrow> UserRecord \<Rightarrow> CreateUserDTO \<Rightarrow> DocumentData" where
  "new_profile w r model =
     [''uid'' \<mapsto> JStr (record_uid r),
      ''email'' \<mapsto> JStr (email model),
      ''fullName'' \<mapsto> JStr (fullName model),
      ''phoneNumber'' \<mapsto> (case phoneNumber model of None \<Rightarrow> JUndefined | Some p \<Rightarrow> JStr p),
      ''createdAt'' \<mapsto> JTimestamp (now w 0),
      ''lastLogin'' \<mapsto> JTimestamp (now w 1),
      ''purchases'' \<mapsto> JArr [],
      ''role'' \<mapsto> UserRole_USER]"

text \<open>The object literal returned by \<^verbatim>\<open>create\<close>, built from the re-read data.\<close>

definition returned_doc :: "DocumentData \<Rightarrow> DocumentData" where
  "returned_doc d =
     [''uid'' \<mapsto> get_prop d ''uid'',
      ''email'' \<mapsto> get_prop d ''email'',
      ''fullName'' \<mapsto> get_prop d ''fullName'',
      ''phoneNumber'' \<mapsto> get_prop d ''phoneNumber'',
      ''createdAt'' \<mapsto> get_prop d ''createdAt'',
      ''lastLogin'' \<mapsto> get_prop d ''lastLogin'',
      ''purchases'' \<mapsto> get_prop d ''purchases'',
      ''role'' \<mapsto> get_prop d ''role'']"

text \<open>The outer \<^verbatim>\<open>catch\<close> of \<^verbatim>\<open>create\<close>: log and rethrow.\<close>

definition create_catch :: "thrown \<Rightarrow> effect list \<Rightarrow> (thrown + DocumentData) \<times> effect list" where
  "create_catch error tr = (Inl error, tr @ [Console (ErrCreatingUser error)])"

definition create :: "world \<Rightarrow> CreateUserDTO \<Rightarrow> (thrown + DocumentData) \<times> effect list" where
  "create w model =
     (let t0 = [CreateUser (fullName model) (email model) (password model)] in
      case createUser w (fullName model) (email model) (password model) of
        Inl err \<Rightarrow> create_catch err t0
      | Inr None \<Rightarrow>
          create_catch (HttpException ''Unable to create account. Please try again.''
                          INTERNAL_SERVER_ERROR) t0
      | Inr (Some r) \<Rightarrow>
          (case saveUser w (record_uid r) (new_profile w r model) of
             (Inl err, t1) \<Rightarrow> create_catch err (t0 @ t1)
           | (Inr x, t1) \<Rightarrow>
               (let t2 = (case sendEmailVerification w (record_uid r) (email model) of
                            (Inl e, tr) \<Rightarrow> tr @ [Console (WarnFailedToQueue e)]
                          | (Inr y, tr) \<Rightarrow> tr);
                    t3 = t0 @ t1 @ t2 @ [DocGet (record_uid r)]
                in case doc_get w (record_uid r) of
                     Inl err \<Rightarrow> create_catch err t3
                   | Inr None \<Rightarrow>
                       create_catch
                         (HttpException
                            ''Account created but verification failed. Please contact support.''
                            INTERNAL_SERVER_ERROR) t3
                   | Inr (Some d) \<Rightarrow> (Inr (returned_doc d), t3))))"

text \<open>\<^verbatim>\<open>return { id: user.id, ...user.data() }\<close>: the data's own properties are spread last.\<close>

definition findOne :: "world \<Rightarrow> string \<Rightarrow> (thrown + DocumentData) \<times> effect list" where
  "findOne w ident =
     (case doc_get w ident of
        Inl err \<Rightarrow> (Inl err, [DocGet ident])
      | Inr None \<Rightarrow> (Inl (HttpException ''Account not found'' NOT_FOUND), [DocGet ident])
      | Inr (Some d) \<Rightarrow> (Inr ([''id'' \<mapsto> JStr ident] ++ d), [DocGet ident]))"

definition update :: "world \<Rightarrow> string \<Rightarrow> DocumentData \<Rightarrow> (thrown + DocumentData) \<times> effect list" where
  "update w ident model =
     (case findOne w ident of
        (Inl err, t0) \<Rightarrow> (Inl err, t0)
      | (Inr usr, t0) \<Rightarrow>
          (case saveUser w ident (usr ++ model) of
             (Inl err, t1) \<Rightarrow> (Inl err, t0 @ t1)
           | (Inr x, t1) \<Rightarrow> (Inr (usr ++ model), t0 @ t1)))"

section \<open>The HTTP handlers (auth.controller.ts)\<close>

text \<open>
  \<^verbatim>\<open>JSON.stringify\<close> on an object literal whose property values are strings or undefined:
  a property whose value is undefined is left out; strings are quoted with the escapes of
  ECMAScript's QuoteJSONString. Strings are byte sequences (UTF-8), which pass unchanged.
\<close>

definition hex_digit :: "nat \<Rightarrow> char" where
  "hex_digit n = ''0123456789abcdef'' ! n"

definition JSON_quote_char :: "char \<Rightarrow> string" where
  "JSON_quote_char c =
     (if c = CHR 0x22 then [CHR 0x5C, CHR 0x22]
      else if c = CHR 0x5C then [CHR 0x5C, CHR 0x5C]
      else if c = CHR 0x08 then [CHR 0x5C, CHR ''b'']
      else if c = CHR 0x0C then [CHR 0x5C, CHR ''f'']
      else if c = CHR 0x0A then [CHR 0x5C, CHR ''n'']
      else if c = CHR 0x0D then [CHR 0x5C, CHR ''r'']
      else if c = CHR 0x09 then [CHR 0x5C, CHR ''t'']
      else if (of_char c :: nat) < 32
        then [CHR 0x5C, CHR ''u'', CHR ''0'', CHR ''0'',
              hex_digit ((of_char c :: nat) div 16), hex_digit ((of_char c :: nat) mod 16)]
      else [c])"

definition JSON_quote :: "string \<Rightarrow> string" where
  "JSON_quote s = CHR 0x22 # concat (map JSON_quote_char s) @ [CHR 0x22]"

fun JSON_members :: "(string \<times> string option) list \<Rightarrow> string list" where
  "JSON_members [] = []"
| "JSON_members ((k, None) # ps) = JSON_members ps"
| "JSON_members ((k, Some v) # ps) = (JSON_quote k @ '':'' @ JSON_quote v) # JSON_members ps"

fun join_commas :: "string list \<Rightarrow> string" where
  "join_commas [] = []"
| "join_commas [x] = x"
| "join_commas (x # y # ys) = x @ '','' @ join_commas (y # ys)"

definition JSON_stringify :: "(string \<times> string option) list \<Rightarrow> string" where
  "JSON_stringify ps = ''{'' @ join_commas (JSON_members ps) @ ''}''"

text \<open>\<^verbatim>\<open>Buffer.from(s, 'utf8').toString('base64')\<close>: RFC 4648 base64 with padding.\<close>

definition b64_char :: "nat \<Rightarrow> char" where
  "b64_char n =
     ''ABCDEFGHIJKLMNOPQRSTUVWXYZabcdefghijklmnopqrstuvwxyz0123456789+/'' ! n"

fun base64 :: "string \<Rightarrow> string" where
  "base64 [] = []"
| "base64 [a] =
     (let n = (of_char a :: nat) * 65536
      in [b64_char (n div 262144), b64_char (n div 4096 mod 64), CHR ''='', CHR ''=''])"
| "base64 [a, b] =
     (let n = (of_char a :: nat) * 65536 + (of_char b :: nat) * 256
      in [b64_char (n div 262144), b64_char (n div 4096 mod 64), b64_char (n div 64 mod 64),
          CHR ''=''])"
| "base64 (a # b # c # rest) =
     (let n = (of_char a :: nat) * 65536 + (of_char b :: nat) * 256 + (of_char c :: nat)
      in [b64_char (n div 262144), b64_char (n div 4096 mod 64), b64_char (n div 64 mod 64),
          b64_char (n mod 64)] @ base64 rest)"

definition session_payload :: "LoginResult \<Rightarrow> string" where
  "session_payload result =
     base64 (JSON_stringify [(''t'', Some (idToken result)), (''r'', user_role result)])"

definition session_cookie_options :: "world \<Rightarrow> CookieOptions" where
  "session_cookie_options w =
     \<lparr> httpOnly = True,
       sameSite = ''lax'',
       maxAge = 12 * 60 * 60 * 1000,
       cookie_secure = (env w ''NODE_ENV'' = Some ''production''),
       cookie_path = ''/'' \<rparr>"

text \<open>
  \<^verbatim>\<open>login\<close>: a failure of \<^verbatim>\<open>authSvc.login\<close> propagates; the cookie is placed inside a
  \<^verbatim>\<open>try\<close> whose \<^verbatim>\<open>catch\<close> is empty, so the result is returned either way.
\<close>

definition login :: "world \<Rightarrow> LoginDto \<Rightarrow> (thrown + LoginResult) \<times> effect list" where
  "login w loginDto =
     (case authSvc_login w loginDto of
        Inl err \<Rightarrow> (Inl err, [AuthLogin loginDto])
      | Inr result \<Rightarrow>
          (case res_cookie w ''sp_auth'' (session_payload result) (session_cookie_options w) of
             Some err \<Rightarrow>
               (Inr result,
                [AuthLogin loginDto,
                 ResCookie ''sp_auth'' (session_payload result) (session_cookie_options w)])
           | None \<Rightarrow>
               (Inr result,
                [AuthLogin loginDto,
                 ResCookie ''sp_auth'' (session_payload result) (session_cookie_options w)])))"

record ResendResponse =
  success :: bool
  logged :: "bool option"
  link_out :: "string option"

definition controller_html :: "string \<Rightarrow> string" where
  "controller_html link =
     ''<p>Hello,</p><p>Please verify your email by clicking the link below:</p><p><a href=''
       @ [CHR 0x22] @ link @ [CHR 0x22] @ ''>Verify Email</a></p><pre>'' @ link @ ''</pre>''"

text \<open>The message handed to \<^verbatim>\<open>transporter.sendMail\<close> by the handler.\<close>

definition controller_mail :: "world \<Rightarrow> string \<Rightarrow> string \<Rightarrow> MailOptions" where
  "controller_mail w em link =
     \<lparr> mail_from = mail_sender w, mail_to = em,
       mail_subject = ''Verify your email for Sure Proxies'',
       mail_html = controller_html link \<rparr>"

text \<open>The body of the \<^verbatim>\<open>try\<close> block of the handler \<^verbatim>\<open>resendVerification\<close>.\<close>

definition AuthController_resendVerification_try ::
  "world \<Rightarrow> string \<Rightarrow> (thrown + ResendResponse) \<times> effect list" where
  "AuthController_resendVerification_try w em =
     (case getUserByEmail w em of
        Inl err \<Rightarrow> (Inl err, [GetUserByEmail em])
      | Inr usr \<Rightarrow>
          (case generateEmailVerificationLink w em (actionCodeSettings w) of
             Inl err \<Rightarrow> (Inl err, [GetUserByEmail em, GenerateLink em (actionCodeSettings w)])
           | Inr link \<Rightarrow>
               (case smtp_transport w of
                  Some t \<Rightarrow>
                    (let m = controller_mail w em link
                     in case sendMail w t m of
                          Inl err \<Rightarrow>
                            (Inl err,
                             [GetUserByEmail em, GenerateLink em (actionCodeSettings w),
                              SendMail t m])
                        | Inr messageId \<Rightarrow>
                            (Inr \<lparr> success = True, logged = None, link_out = None \<rparr>,
                             [GetUserByEmail em, GenerateLink em (actionCodeSettings w),
                              SendMail t m]))
                | None \<Rightarrow>
                    (Inr \<lparr> success = True, logged = Some True, link_out = Some link \<rparr>,
                     [GetUserByEmail em, GenerateLink em (actionCodeSettings w),
                      Console (WarnSmtpNotConfigured link)]))))"

text \<open>
  The handler's \<^verbatim>\<open>catch\<close>:
  \<^verbatim>\<open>err?.code === 'auth/user-not-found' || err?.message?.includes?.('user')\<close>.
\<close>

definition looks_like_user_not_found :: "thrown \<Rightarrow> bool" where
  "looks_like_user_not_found err =
     (err_code err = Some ''auth/user-not-found''
      \<or> (case err_message err of None \<Rightarrow> False | Some m \<Rightarrow> str_includes m ''user''))"

definition AuthController_resendVerification_catch ::
  "thrown \<Rightarrow> effect list \<Rightarrow> (thrown + ResendResponse) \<times> effect list" where
  "AuthController_resendVerification_catch err tr =
     (if looks_like_user_not_found err
      then (Inl (HttpException ''Account not found'' NOT_FOUND), tr)
      else (Inl (HttpException ''Unable to resend verification link'' INTERNAL_SERVER_ERROR),
            tr @ [Console (ErrFailedToResendLink err)]))"

text \<open>
  The handler: \<open>body_email\<close> is \<^verbatim>\<open>body?.email\<close>, absent when the body or the property is
  missing; \<^verbatim>\<open>!email\<close> also rejects the empty string.
\<close>

definition AuthController_resendVerification ::
  "world \<Rightarrow> string option \<Rightarrow> (thrown + ResendResponse) \<times> effect list" where
  "AuthController_resendVerification w body_email =
     (if \<not> truthy_string body_email
      then (Inl (HttpException ''Email is required'' BAD_REQUEST), [])
      else (case AuthController_resendVerification_try w (the body_email) of
              (Inl err, tr) \<Rightarrow> AuthController_resendVerification_catch err tr
            | (Inr r, tr) \<Rightarrow> (Inr r, tr)))"

section \<open>Reading a trace\<close>

text \<open>The documents written under a key by acknowledged \<^verbatim>\<open>set\<close> calls, in order.\<close>

fun acknowledged_sets :: "world \<Rightarrow> effect list \<Rightarrow> string \<Rightarrow> DocumentData list" where
  "acknowledged_sets w [] k = []"
| "acknowledged_sets w (DocSet k' d # tr) k =
     (if k' = k \<and> doc_set w k' d = None then d # acknowledged_sets w tr k
      else acknowledged_sets w tr k)"
| "acknowledged_sets w (e # tr) k = acknowledged_sets w tr k"

text \<open>
  The calls of a \<^verbatim>\<open>create\<close> that got as far as the re-read: account creation, the write,
  the calls of the email dispatch, the re-read.
\<close>

definition create_trace :: "world \<Rightarrow> UserRecord \<Rightarrow> CreateUserDTO \<Rightarrow> effect list" where
  "create_trace w r m =
     [CreateUser (fullName m) (email m) (password m),
      DocSet (record_uid r) (new_profile w r m)]
     @ snd (sendEmailVerification w (record_uid r) (email m))
     @ [DocGet (record_uid r)]"

section \<open>Test doubles\<close>

text \<open>Concrete collaborators on which the theorems below are instantiated.\<close>

definition dto_a :: CreateUserDTO where
  "dto_a = \<lparr> fullName = ''A'', email = ''a@x.com'', password = ''secret1'', phoneNumber = None \<rparr>"

definition profile_a :: "nat \<Rightarrow> nat \<Rightarrow> DocumentData" where
  "profile_a t0 t1 =
     [''uid'' \<mapsto> JStr ''u1'',
      ''email'' \<mapsto> JStr ''a@x.com'',
      ''fullName'' \<mapsto> JStr ''A'',
      ''phoneNumber'' \<mapsto> JUndefined,
      ''createdAt'' \<mapsto> JTimestamp t0,
      ''lastLogin'' \<mapsto> JTimestamp t1,
      ''purchases'' \<mapsto> JArr [],
      ''role'' \<mapsto> JStr ''USER'']"

definition smtp_env :: "string \<rightharpoonup> string" where
  "smtp_env = [''SMTP_HOST'' \<mapsto> ''smtp.x.com'', ''SMTP_PORT'' \<mapsto> ''587'',
               ''SMTP_USER'' \<mapsto> ''mailer'', ''SMTP_PASS'' \<mapsto> ''pw'']"

definition number_stub :: "string \<Rightarrow> jsnumber" where
  "number_stub s = (if s = ''587'' then Finite 587 else if s = ''0'' then Finite 0 else NaN)"

definition no_such_user :: thrown where
  "no_such_user = JsError (Some ''auth/user-not-found'')
     (Some ''There is no user record corresponding to the provided identifier.'')"

definition lookup_stub :: "string \<Rightarrow> thrown + UserRecord" where
  "lookup_stub e = (if e = ''a@x.com'' then Inr (UserRecord ''u1'') else Inl no_such_user)"

definition world_ok :: world where
  "world_ok =
     \<lparr> env = smtp_env,
       Number = number_stub,
       now = (\<lambda>n. 1000),
       createUser = (\<lambda>d e p. Inr (Some (UserRecord ''u1''))),
       getUserByEmail = lookup_stub,
       generateEmailVerificationLink = (\<lambda>e s. Inr ''https://id.example/verify?code=1''),
       sendMail = (\<lambda>t m. Inr ''msg-1''),
       doc_get = (\<lambda>k. Inr (if k = ''u1'' then Some (profile_a 1000 1000) else None)),
       doc_set = (\<lambda>k d. None),
       doc_delete = (\<lambda>k. None),
       authSvc_login = (\<lambda>d. Inr \<lparr> idToken = ''abc'', user_role = Some ''USER'' \<rparr>),
       res_cookie = (\<lambda>n v opts. None) \<rparr>"

definition world_tick :: world where
  "world_tick = world_ok \<lparr> now := (\<lambda>n. 1000 + n),
                           doc_get := (\<lambda>k. Inr (Some (profile_a 1000 1001))) \<rparr>"

definition smtp_refused :: thrown where
  "smtp_refused = JsError (Some ''ECONNECTION'') (Some ''connect ECONNREFUSED 127.0.0.1:587'')"

definition world_smtp_down :: world where
  "world_smtp_down = world_ok \<lparr> sendMail := (\<lambda>t m. Inl smtp_refused) \<rparr>"

definition world_lost_write :: world where
  "world_lost_write = world_ok \<lparr> doc_get := (\<lambda>k. Inr None) \<rparr>"

definition smtp_no_such_user :: thrown where
  "smtp_no_such_user = JsError (Some ''EENVELOPE'') (Some ''550 No such user here'')"

definition world_smtp_rejects :: world where
  "world_smtp_rejects = world_ok \<lparr> sendMail := (\<lambda>t m. Inl smtp_no_such_user) \<rparr>"

definition invalid_email_error :: thrown where
  "invalid_email_error =
     JsError (Some ''auth/invalid-email'') (Some ''The email address is improperly formatted.'')"

definition world_bad_lookup :: world where
  "world_bad_lookup = world_ok \<lparr> getUserByEmail := (\<lambda>e. Inl invalid_email_error) \<rparr>"

definition world_port_zero :: world where
  "world_port_zero = world_ok \<lparr> env := smtp_env(''SMTP_PORT'' \<mapsto> ''0'') \<rparr>"

definition partial_with_id :: DocumentData where
  "partial_with_id = [''id'' \<mapsto> JStr ''mine'', ''fullName'' \<mapsto> JStr ''B'']"

definition partial_name :: DocumentData where
  "partial_name = [''fullName'' \<mapsto> JStr ''B'']"

definition legacy_doc :: DocumentData where
  "legacy_doc = [''id'' \<mapsto> JStr ''legacy'', ''uid'' \<mapsto> JStr ''u1'', ''fullName'' \<mapsto> JStr ''A'']"

definition world_legacy :: world where
  "world_legacy = world_ok \<lparr> doc_get := (\<lambda>k. Inr (Some legacy_doc)) \<rparr>"

definition dto_login :: LoginDto where
  "dto_login = \<lparr> login_email = ''a@x.com'', login_password = ''secret1'' \<rparr>"

section \<open>Auxiliary lemmas\<close>

lemma acknowledged_sets_append:
  "acknowledged_sets w (xs @ ys) k = acknowledged_sets w xs k @ acknowledged_sets w ys k"
  by (induction w xs k rule: acknowledged_sets.induct) auto

lemma acknowledged_sets_no_writes:
  "filter is_write tr = [] \<Longrightarrow> acknowledged_sets w tr k = []"
  by (induction w tr k rule: acknowledged_sets.induct) (simp_all split: if_splits)

lemma persisted_iff: "persisted w tr k d \<longleftrightarrow> d \<in> set (acknowledged_sets w tr k)"
  unfolding persisted_def
  by (induction w tr k rule: acknowledged_sets.induct) auto

lemma sendEmailVerification_never_throws: "fst (sendEmailVerification w u em) = Inr ()"
  by (simp add: sendEmailVerification_def sendEmailVerification_try_def Let_def
      split: sum.splits option.splits prod.splits)

lemma sendEmailVerification_no_writes:
  "filter is_write (snd (sendEmailVerification w u em)) = []"
  by (simp add: sendEmailVerification_def sendEmailVerification_try_def Let_def
      split: sum.splits option.splits prod.splits)

lemma store_after_append: "store_after w (xs @ ys) s = store_after w ys (store_after w xs s)"
  by (induction w xs s rule: store_after.induct) simp_all

lemma store_after_no_writes: "filter is_write tr = [] \<Longrightarrow> store_after w tr s = s"
  by (induction w tr s rule: store_after.induct) (simp_all split: if_splits)

lemma create_after_write:
  assumes "createUser w (fullName m) (email m) (password m) = Inr (Some r)"
    and "doc_set w (record_uid r) (new_profile w r m) = None"
  shows "create w m =
     (case doc_get w (record_uid r) of
        Inl err \<Rightarrow> create_catch err (create_trace w r m)
      | Inr None \<Rightarrow>
          create_catch
            (HttpException ''Account created but verification failed. Please contact support.''
               INTERNAL_SERVER_ERROR) (create_trace w r m)
      | Inr (Some d) \<Rightarrow> (Inr (returned_doc d), create_trace w r m))"
proof -
  obtain x tr where sev: "sendEmailVerification w (record_uid r) (email m) = (x, tr)"
    by (cases "sendEmailVerification w (record_uid r) (email m)")
  with sendEmailVerification_never_throws [of w "record_uid r" "email m"]
  have x: "x = Inr ()" by simp
  show ?thesis
    using assms sev x
    by (simp add: create_def saveUser_def create_trace_def Let_def
        split: sum.splits option.splits)
qed

lemma create_success_inversion:
  assumes "create w m = (Inr u, tr)"
  shows "\<exists>r d. createUser w (fullName m) (email m) (password m) = Inr (Some r)
           \<and> doc_set w (record_uid r) (new_profile w r m) = None
           \<and> doc_get w (record_uid r) = Inr (Some d)
           \<and> u = returned_doc d \<and> tr = create_trace w r m"
proof (cases "createUser w (fullName m) (email m) (password m)")
  case (Inl e)
  with assms show ?thesis by (simp add: create_def create_catch_def)
next
  case (Inr ro)
  show ?thesis
  proof (cases ro)
    case None
    with Inr assms show ?thesis by (simp add: create_def create_catch_def)
  next
    case (Some r)
    show ?thesis
    proof (cases "doc_set w (record_uid r) (new_profile w r m)")
      case (Some e)
      with Inr \<open>ro = Some r\<close> assms show ?thesis
        by (simp add: create_def saveUser_def create_catch_def)
    next
      case None
      from Inr \<open>ro = Some r\<close> have cu: "createUser w (fullName m) (email m) (password m) = Inr (Some r)"
        by simp
      from create_after_write [OF cu None] assms
      show ?thesis using cu None
        by (auto simp: create_catch_def split: sum.splits option.splits)
    qed
  qed
qed

lemma create_trace_sets:
  "doc_set w (record_uid r) (new_profile w r m) = None \<Longrightarrow>
   acknowledged_sets w (create_trace w r m) (record_uid r) = [new_profile w r m]"
  by (simp add: create_trace_def acknowledged_sets_append
      acknowledged_sets_no_writes [OF sendEmailVerification_no_writes])

lemma create_trace_store:
  "doc_set w (record_uid r) (new_profile w r m) = None \<Longrightarrow>
   store_after w (create_trace w r m) s = s(record_uid r \<mapsto> new_profile w r m)"
  by (simp add: create_trace_def store_after_append
      store_after_no_writes [OF sendEmailVerification_no_writes])

lemma world_ok_simps:
  "createUser world_ok a b c = Inr (Some (UserRecord ''u1''))"
  "doc_set world_ok k d = None"
  "doc_get world_ok ''u1'' = Inr (Some (profile_a 1000 1000))"
  "now world_ok n = 1000"
  by (simp_all add: world_ok_def)

lemma world_tick_simps:
  "createUser world_tick a b c = Inr (Some (UserRecord ''u1''))"
  "doc_set world_tick k d = None"
  "doc_get world_tick k = Inr (Some (profile_a 1000 1001))"
  "now world_tick n = 1000 + n"
  by (simp_all add: world_tick_def world_ok_def)

lemma new_profile_tick: "new_profile world_tick (UserRecord ''u1'') dto_a = profile_a 1000 1001"
  by (simp add: new_profile_def world_tick_simps dto_a_def profile_a_def UserRole_USER_def)

lemma new_profile_ok: "new_profile world_ok (UserRecord ''u1'') dto_a = profile_a 1000 1000"
  by (simp add: new_profile_def world_ok_simps dto_a_def profile_a_def UserRole_USER_def)

lemma create_ignores_dispatch:
  "fst (create (w\<lparr> generateEmailVerificationLink := g, sendMail := sm \<rparr>) m) = fst (create w m)"
proof (cases "createUser w (fullName m) (email m) (password m)")
  case (Inl e)
  then show ?thesis by (simp add: create_def create_catch_def)
next
  case (Inr ro)
  show ?thesis
  proof (cases ro)
    case None
    with Inr show ?thesis by (simp add: create_def create_catch_def)
  next
    case (Some r)
    let ?w = "w\<lparr> generateEmailVerificationLink := g, sendMail := sm \<rparr>"
    have np: "new_profile ?w r m = new_profile w r m" by (simp add: new_profile_def)
    show ?thesis
    proof (cases "doc_set w (record_uid r) (new_profile w r m)")
      case (Some e)
      with Inr \<open>ro = Some r\<close> show ?thesis
        by (simp add: create_def saveUser_def create_catch_def np)
    next
      case None
      from Inr \<open>ro = Some r\<close> have cu: "createUser w (fullName m) (email m) (password m) = Inr (Some r)"
        by simp
      have cu': "createUser ?w (fullName m) (email m) (password m) = Inr (Some r)"
        using cu by simp
      have ds': "doc_set ?w (record_uid r) (new_profile ?w r m) = None"
        using None by (simp add: np)
      show ?thesis
        unfolding create_after_write [OF cu None] create_after_write [OF cu' ds']
        by (simp add: create_catch_def split: sum.splits option.splits)
    qed
  qed
qed

lemma world_ok_smtp: "smtp_transport world_ok =
   Some \<lparr> smtp_host = ''smtp.x.com'', smtp_port = Finite 587, smtp_secure = False,
          auth_user = ''mailer'', auth_pass = ''pw'' \<rparr>"
  by (simp add: smtp_transport_def smtp_port_of_def world_ok_def smtp_env_def number_stub_def)

lemma world_smtp_down_simps:
  "generateEmailVerificationLink world_smtp_down e s = Inr ''https://id.example/verify?code=1''"
  "sendMail world_smtp_down t m = Inl smtp_refused"
  "getUserByEmail world_smtp_down e = lookup_stub e"
  by (simp_all add: world_smtp_down_def world_ok_def)

lemma str_includes_iff: "str_includes s p \<longleftrightarrow> (\<exists>a b. s = a @ p @ b)"
proof (induction s)
  case Nil
  then show ?case by auto
next
  case (Cons c cs)
  show ?case
  proof
    assume "str_includes (c # cs) p"
    then consider "prefix p (c # cs)" | "str_includes cs p" by auto
    then show "\<exists>a b. c # cs = a @ p @ b"
    proof cases
      case 1
      then obtain b where "c # cs = p @ b" by (auto simp: prefix_def)
      then have "c # cs = [] @ p @ b" by simp
      then show ?thesis by blast
    next
      case 2
      with Cons.IH obtain a b where "cs = a @ p @ b" by blast
      then have "c # cs = (c # a) @ p @ b" by simp
      then show ?thesis by blast
    qed
  next
    assume "\<exists>a b. c # cs = a @ p @ b"
    then obtain a b where ab: "c # cs = a @ p @ b" by blast
    show "str_includes (c # cs) p"
    proof (cases a)
      case Nil
      with ab have "prefix p (c # cs)" by (simp add: prefix_def)
      then show ?thesis by simp
    next
      case (Cons x a')
      with ab have "cs = a' @ p @ b" by simp
      with Cons.IH have "str_includes cs p" by blast
      then show ?thesis by simp
    qed
  qed
qed


lemma resend_try_transport_failure:
  assumes "getUserByEmail w em = Inr usr"
    and "generateEmailVerificationLink w em (actionCodeSettings w) = Inr link"
    and "smtp_transport w = Some t"
    and "sendMail w t (controller_mail w em link) = Inl err"
  shows "AuthController_resendVerification_try w em =
           (Inl err, [GetUserByEmail em, GenerateLink em (actionCodeSettings w),
                      SendMail t (controller_mail w em link)])"
  using assms by (simp add: AuthController_resendVerification_try_def)



lemma lookup_a: "lookup_stub ''a@x.com'' = Inr (UserRecord ''u1'')"
  by (simp add: lookup_stub_def)

lemma world_bad_lookup_simps:
  "getUserByEmail world_bad_lookup e = Inl invalid_email_error"
  by (simp add: world_bad_lookup_def)

lemma payload_abc_USER:
  "base64 (JSON_stringify [(''t'', Some ''abc''), (''r'', Some ''USER'')])
     = ''eyJ0IjoiYWJjIiwiciI6IlVTRVIifQ==''"
  by (simp add: JSON_stringify_def JSON_quote_def JSON_quote_char_def b64_char_def)

lemma resend_try_throws_iff:
  "fst (AuthController_resendVerification_try w em) = Inl err \<longleftrightarrow>
     getUserByEmail w em = Inl err
     \<or> (\<exists>usr. getUserByEmail w em = Inr usr
           \<and> generateEmailVerificationLink w em (actionCodeSettings w) = Inl err)
     \<or> (\<exists>usr link t. getUserByEmail w em = Inr usr
           \<and> generateEmailVerificationLink w em (actionCodeSettings w) = Inr link
           \<and> smtp_transport w = Some t
           \<and> sendMail w t (controller_mail w em link) = Inl err)"
  by (auto simp: AuthController_resendVerification_try_def Let_def
      split: sum.splits option.splits)

lemma world_smtp_rejects_simps:
  "generateEmailVerificationLink world_smtp_rejects e s = Inr ''https://id.example/verify?code=1''"
  "sendMail world_smtp_rejects t m = Inl smtp_no_such_user"
  "getUserByEmail world_smtp_rejects e = lookup_stub e"
  by (simp_all add: world_smtp_rejects_def world_ok_def)

lemma world_smtp_rejects_smtp: "smtp_transport world_smtp_rejects =
   Some \<lparr> smtp_host = ''smtp.x.com'', smtp_port = Finite 587, smtp_secure = False,
          auth_user = ''mailer'', auth_pass = ''pw'' \<rparr>"
  by (simp add: smtp_transport_def smtp_port_of_def world_smtp_rejects_def world_ok_def
      smtp_env_def number_stub_def)

lemma smtp_port_falsy:
  assumes "env w ''SMTP_PORT'' = Some p" and "Number w p = NaN \<or> Number w p = Finite 0"
  shows "smtp_transport w = None"
  using assms by (auto simp: smtp_transport_def smtp_port_of_def)

lemma sendEmailVerification_no_transport:
  "smtp_transport w = None \<Longrightarrow> filter is_smtp (snd (sendEmailVerification w u em)) = []"
  by (simp add: sendEmailVerification_def sendEmailVerification_try_def split: sum.splits)

lemma create_no_transport:
  assumes "smtp_transport w = None"
  shows "filter is_smtp (snd (create w m)) = []"
proof (cases "createUser w (fullName m) (email m) (password m)")
  case (Inl e)
  then show ?thesis by (simp add: create_def create_catch_def)
next
  case (Inr ro)
  show ?thesis
  proof (cases ro)
    case None
    with Inr show ?thesis by (simp add: create_def create_catch_def)
  next
    case (Some r)
    show ?thesis
    proof (cases "doc_set w (record_uid r) (new_profile w r m)")
      case (Some e)
      with Inr \<open>ro = Some r\<close> show ?thesis
        by (simp add: create_def saveUser_def create_catch_def)
    next
      case None
      from Inr \<open>ro = Some r\<close> have cu: "createUser w (fullName m) (email m) (password m) = Inr (Some r)"
        by simp
      show ?thesis
        unfolding create_after_write [OF cu None]
        using sendEmailVerification_no_transport [OF assms, of "record_uid r" "email m"]
        by (simp add: create_catch_def create_trace_def split: sum.splits option.splits)
    qed
  qed
qed

lemma world_port_zero_simps:
  "env world_port_zero ''SMTP_PORT'' = Some ''0''"
  "env world_port_zero ''SMTP_HOST'' = Some ''smtp.x.com''"
  "env world_port_zero ''SMTP_USER'' = Some ''mailer''"
  "env world_port_zero ''SMTP_PASS'' = Some ''pw''"
  "Number world_port_zero ''0'' = Finite 0"
  "generateEmailVerificationLink world_port_zero e s = Inr ''https://id.example/verify?code=1''"
  "getUserByEmail world_port_zero e = lookup_stub e"
  by (simp_all add: world_port_zero_def world_ok_def smtp_env_def number_stub_def)

lemma resend_not_found_both_paths:
  assumes "em \<noteq> []" and "getUserByEmail w em = Inl err"
    and "err_code err = Some ''auth/user-not-found''"
  shows "fst (AuthController_resendVerification w (Some em)) =
           Inl (HttpException ''Account not found'' NOT_FOUND)"
    and "filter is_smtp (snd (AuthController_resendVerification w (Some em))) = []"
    and "fst (resendVerification w em) = Inl (HttpException ''Account not found'' NOT_FOUND)"
    and "filter is_smtp (snd (resendVerification w em)) = []"
  using assms
  by (simp_all add: AuthController_resendVerification_def AuthController_resendVerification_try_def
      AuthController_resendVerification_catch_def looks_like_user_not_found_def
      resendVerification_def)

section \<open>The claims\<close>

subsection \<open>C1: what a successful Create has persisted\<close>

text \<open>
  C1, as the code has it. If \<^verbatim>\<open>create\<close> returns successfully, the identity provider issued a
  record \<open>r\<close>, and exactly one document was written under the key \<open>record_uid r\<close> by an
  acknowledged \<^verbatim>\<open>set\<close>: the profile, whose \<open>uid\<close> is the provider's uid, whose \<open>purchases\<close>
  is the empty array and whose \<open>role\<close> is \<open>USER\<close>. Its \<open>createdAt\<close> is the first and its
  \<open>lastLogin\<close> the second reading of the clock (the source calls \<^verbatim>\<open>Timestamp.now()\<close> once
  for each), so the two are equal when the clock did not advance between the reads. A
  store that applies the acknowledged writes holds the profile under that key.
\<close>

theorem create_persists_profile:
  assumes "create w m = (Inr u, tr)"
  shows "\<exists>r. createUser w (fullName m) (email m) (password m) = Inr (Some r)
     \<and> persisted w tr (record_uid r) (new_profile w r m)
     \<and> acknowledged_sets w tr (record_uid r) = [new_profile w r m]
     \<and> store_after w tr s (record_uid r) = Some (new_profile w r m)
     \<and> new_profile w r m ''uid'' = Some (JStr (record_uid r))
     \<and> new_profile w r m ''purchases'' = Some (JArr [])
     \<and> new_profile w r m ''role'' = Some UserRole_USER
     \<and> new_profile w r m ''createdAt'' = Some (JTimestamp (now w 0))
     \<and> new_profile w r m ''lastLogin'' = Some (JTimestamp (now w 1))"
proof -
  from create_success_inversion [OF assms] obtain r d where
    cu: "createUser w (fullName m) (email m) (password m) = Inr (Some r)" and
    ds: "doc_set w (record_uid r) (new_profile w r m) = None" and
    tr: "tr = create_trace w r m"
    by blast
  have "persisted w tr (record_uid r) (new_profile w r m)"
    by (simp add: persisted_iff tr create_trace_sets [OF ds])
  moreover have "acknowledged_sets w tr (record_uid r) = [new_profile w r m]"
    by (simp add: tr create_trace_sets [OF ds])
  moreover have "store_after w tr s (record_uid r) = Some (new_profile w r m)"
    by (simp add: tr create_trace_store [OF ds])
  moreover have "new_profile w r m ''uid'' = Some (JStr (record_uid r))"
    "new_profile w r m ''purchases'' = Some (JArr [])"
    "new_profile w r m ''role'' = Some UserRole_USER"
    "new_profile w r m ''createdAt'' = Some (JTimestamp (now w 0))"
    "new_profile w r m ''lastLogin'' = Some (JTimestamp (now w 1))"
    by (simp_all add: new_profile_def)
  ultimately show ?thesis using cu by blast
qed

text \<open>C1, witness: a creation on a clock that stands still.\<close>

theorem create_persists_profile_witness:
  "create world_ok dto_a = (Inr (returned_doc (profile_a 1000 1000)), snd (create world_ok dto_a))
   \<and> persisted world_ok (snd (create world_ok dto_a)) ''u1'' (profile_a 1000 1000)
   \<and> profile_a 1000 1000 ''createdAt'' = profile_a 1000 1000 ''lastLogin''"
proof -
  have c: "create world_ok dto_a =
      (Inr (returned_doc (profile_a 1000 1000)), snd (create world_ok dto_a))"
    using create_after_write [of world_ok dto_a "UserRecord ''u1''"]
    by (simp add: world_ok_simps)
  from create_persists_profile [OF c] obtain r where
    "createUser world_ok (fullName dto_a) (email dto_a) (password dto_a) = Inr (Some r)"
    "persisted world_ok (snd (create world_ok dto_a)) (record_uid r) (new_profile world_ok r dto_a)"
    by blast
  then have "persisted world_ok (snd (create world_ok dto_a)) ''u1'' (profile_a 1000 1000)"
    by (auto simp: world_ok_simps new_profile_ok)
  then show ?thesis using c by (simp add: profile_a_def)
qed

text \<open>
  C1, counterexample to the claim as written (\<open>createdAt = lastLogin\<close>): on a clock that
  advances between the two reads, \<^verbatim>\<open>create\<close> succeeds and the only document persisted
  under the uid has different \<open>createdAt\<close> and \<open>lastLogin\<close>.
\<close>

theorem create_timestamps_counterexample:
  "fst (create world_tick dto_a) = Inr (returned_doc (profile_a 1000 1001))
   \<and> acknowledged_sets world_tick (snd (create world_tick dto_a)) ''u1'' = [profile_a 1000 1001]
   \<and> profile_a 1000 1001 ''createdAt'' \<noteq> profile_a 1000 1001 ''lastLogin''"
proof -
  have c: "create world_tick dto_a =
      (Inr (returned_doc (profile_a 1000 1001)), create_trace world_tick (UserRecord ''u1'') dto_a)"
    using create_after_write [of world_tick dto_a "UserRecord ''u1''"]
    by (simp add: world_tick_simps)
  have "acknowledged_sets world_tick (create_trace world_tick (UserRecord ''u1'') dto_a) ''u1''
      = [profile_a 1000 1001]"
    using create_trace_sets [of world_tick "UserRecord ''u1''" dto_a]
    by (simp add: world_tick_simps new_profile_tick)
  moreover have "profile_a 1000 1001 ''createdAt'' \<noteq> profile_a 1000 1001 ''lastLogin''"
    by (simp add: profile_a_def)
  ultimately show ?thesis using c by simp
qed

subsection \<open>C2: email dispatch never fails a creation\<close>

text \<open>
  C2. When the identity provider created the account, the \<^verbatim>\<open>set\<close> raised no error and the
  document is found by the re-read, \<^verbatim>\<open>create\<close> returns successfully whatever link
  generation (\<open>g\<close>) and the SMTP transport (\<open>sm\<close>) do, a raise included; and the
  result of \<^verbatim>\<open>create\<close> is the same as with any other link generation and transport.
\<close>

theorem create_survives_email_failure:
  assumes "createUser w (fullName m) (email m) (password m) = Inr (Some r)"
    and "doc_set w (record_uid r) (new_profile w r m) = None"
    and "doc_get w (record_uid r) = Inr (Some d)"
  shows "fst (create (w\<lparr> generateEmailVerificationLink := g, sendMail := sm \<rparr>) m)
           = Inr (returned_doc d)
         \<and> fst (create (w\<lparr> generateEmailVerificationLink := g, sendMail := sm \<rparr>) m)
           = fst (create w m)"
  using create_after_write [OF assms(1,2)] assms(3) create_ignores_dispatch
  by simp

text \<open>
  C2, witness: SMTP is configured and the transport refuses the connection; the email
  dispatch raises inside, the creation returns the profile.
\<close>

theorem create_survives_email_failure_witness:
  "createUser world_ok (fullName dto_a) (email dto_a) (password dto_a) = Inr (Some (UserRecord ''u1''))
   \<and> doc_set world_ok ''u1'' (new_profile world_ok (UserRecord ''u1'') dto_a) = None
   \<and> doc_get world_ok ''u1'' = Inr (Some (profile_a 1000 1000))
   \<and> fst (sendEmailVerification_try world_smtp_down ''u1'' ''a@x.com'') = Inl smtp_refused
   \<and> fst (create world_smtp_down dto_a) = Inr (returned_doc (profile_a 1000 1000))"
proof -
  have h1: "createUser world_ok (fullName dto_a) (email dto_a) (password dto_a)
      = Inr (Some (UserRecord ''u1''))" by (simp add: world_ok_simps)
  have h2: "doc_set world_ok (record_uid (UserRecord ''u1''))
      (new_profile world_ok (UserRecord ''u1'') dto_a) = None" by (simp add: world_ok_simps)
  have h3: "doc_get world_ok (record_uid (UserRecord ''u1'')) = Inr (Some (profile_a 1000 1000))"
    by (simp add: world_ok_simps)
  have st: "smtp_transport world_smtp_down = smtp_transport world_ok"
    by (simp add: world_smtp_down_def smtp_transport_def smtp_port_of_def)
  have t: "fst (sendEmailVerification_try world_smtp_down ''u1'' ''a@x.com'') = Inl smtp_refused"
    by (simp add: sendEmailVerification_try_def st world_ok_smtp world_smtp_down_simps)
  from create_survives_email_failure [OF h1 h2 h3,
      where g = "generateEmailVerificationLink world_ok" and sm = "\<lambda>t m. Inl smtp_refused"]
  have "fst (create world_smtp_down dto_a) = Inr (returned_doc (profile_a 1000 1000))"
    by (simp add: world_smtp_down_def)
  then show ?thesis using h1 h2 h3 t by simp
qed

subsection \<open>C3: a transport failure at the resend endpoint\<close>




subsection \<open>C4: provider failures other than a missing account\<close>

text \<open>
  C4, the code evaluated where it departs from the claim. The provider rejects the lookup
  with \<^verbatim>\<open>auth/invalid-email\<close>, which is not \<^verbatim>\<open>auth/user-not-found\<close>. The service method
  \<^verbatim>\<open>UserService.resendVerification\<close> throws \<^verbatim>\<open>Account not found\<close> with status 404, where
  the claim has an internal error; the HTTP handler, on the same failure, throws the
  HTTP 500 exception.
\<close>

theorem resend_lookup_failure_evaluated:
  "getUserByEmail world_bad_lookup ''not-an-email'' = Inl invalid_email_error
   \<and> err_code invalid_email_error \<noteq> Some ''auth/user-not-found''
   \<and> fst (resendVerification world_bad_lookup ''not-an-email'') =
       Inl (HttpException ''Account not found'' NOT_FOUND)
   \<and> fst (AuthController_resendVerification world_bad_lookup (Some ''not-an-email'')) =
       Inl (HttpException ''Unable to resend verification link'' INTERNAL_SERVER_ERROR)"
  by (simp add: world_bad_lookup_simps resendVerification_def invalid_email_error_def
      AuthController_resendVerification_def AuthController_resendVerification_try_def
      AuthController_resendVerification_catch_def looks_like_user_not_found_def)

subsection \<open>C5: the re-read decides the outcome\<close>

text \<open>
  C5. When the account was created and the \<^verbatim>\<open>set\<close> raised no error, \<^verbatim>\<open>create\<close> reads the
  document back under the provider's uid and returns its contents; if the re-read
  finds no document it fails with the HTTP 500 exception
  \<^verbatim>\<open>Account created but verification failed. Please contact support.\<close>; a re-read that
  raises is rethrown. The contents returned for re-read data \<open>d\<close> are an object with
  exactly the properties of the profile schema, each holding what \<open>d\<close> holds under
  that name (\<^verbatim>\<open>undefined\<close> where \<open>d\<close> has no such property).
\<close>

theorem create_rereads_document:
  assumes "createUser w (fullName m) (email m) (password m) = Inr (Some r)"
    and "doc_set w (record_uid r) (new_profile w r m) = None"
  shows "fst (create w m) =
           (case doc_get w (record_uid r) of
              Inl err \<Rightarrow> Inl err
            | Inr None \<Rightarrow>
                Inl (HttpException
                       ''Account created but verification failed. Please contact support.''
                       INTERNAL_SERVER_ERROR)
            | Inr (Some d) \<Rightarrow> Inr (returned_doc d))
         \<and> DocGet (record_uid r) \<in> set (snd (create w m))
         \<and> status_code INTERNAL_SERVER_ERROR = 500
         \<and> dom (returned_doc d) = UserDoc_fields
         \<and> (\<forall>k\<in>UserDoc_fields.
               returned_doc d k = Some (case d k of None \<Rightarrow> JUndefined | Some v \<Rightarrow> v))"
proof -
  have "fst (create w m) =
           (case doc_get w (record_uid r) of
              Inl err \<Rightarrow> Inl err
            | Inr None \<Rightarrow>
                Inl (HttpException
                       ''Account created but verification failed. Please contact support.''
                       INTERNAL_SERVER_ERROR)
            | Inr (Some d) \<Rightarrow> Inr (returned_doc d))
         \<and> DocGet (record_uid r) \<in> set (snd (create w m))"
    unfolding create_after_write [OF assms]
    by (simp add: create_catch_def create_trace_def split: sum.splits option.splits)
  moreover have "dom (returned_doc d) = UserDoc_fields"
    by (auto simp: returned_doc_def UserDoc_fields_def)
  moreover have "\<forall>k\<in>UserDoc_fields.
      returned_doc d k = Some (case d k of None \<Rightarrow> JUndefined | Some v \<Rightarrow> v)"
    by (simp add: returned_doc_def UserDoc_fields_def get_prop_def)
  ultimately show ?thesis by simp
qed

text \<open>
  C5, witness: a store that acknowledges the write and then reports no document, and
  one that returns the profile, of which the creation returns every property.
\<close>

theorem create_rereads_document_witness:
  "createUser world_lost_write (fullName dto_a) (email dto_a) (password dto_a)
     = Inr (Some (UserRecord ''u1''))
   \<and> doc_set world_lost_write ''u1'' (new_profile world_lost_write (UserRecord ''u1'') dto_a) = None
   \<and> doc_get world_lost_write ''u1'' = Inr None
   \<and> fst (create world_lost_write dto_a) =
       Inl (HttpException ''Account created but verification failed. Please contact support.''
              INTERNAL_SERVER_ERROR)
   \<and> doc_get world_ok ''u1'' = Inr (Some (profile_a 1000 1000))
   \<and> fst (create world_ok dto_a) = Inr (returned_doc (profile_a 1000 1000))
   \<and> ''uid'' \<in> UserDoc_fields \<and> ''role'' \<in> UserDoc_fields \<and> ''createdAt'' \<in> UserDoc_fields
   \<and> returned_doc (profile_a 1000 1000) ''uid'' = Some (JStr ''u1'')
   \<and> returned_doc (profile_a 1000 1000) ''role'' = Some (JStr ''USER'')
   \<and> returned_doc (profile_a 1000 1000) ''createdAt'' = Some (JTimestamp 1000)
   \<and> returned_doc (profile_a 1000 1000) ''id'' = None"
proof -
  have a: "createUser world_lost_write (fullName dto_a) (email dto_a) (password dto_a)
     = Inr (Some (UserRecord ''u1''))"
    "doc_set world_lost_write (record_uid (UserRecord ''u1''))
       (new_profile world_lost_write (UserRecord ''u1'') dto_a) = None"
    "doc_get world_lost_write ''u1'' = Inr None"
    by (simp_all add: world_lost_write_def world_ok_def)
  have b: "createUser world_ok (fullName dto_a) (email dto_a) (password dto_a)
     = Inr (Some (UserRecord ''u1''))"
    "doc_set world_ok (record_uid (UserRecord ''u1''))
       (new_profile world_ok (UserRecord ''u1'') dto_a) = None"
    by (simp_all add: world_ok_simps)
  have f: "''uid'' \<in> UserDoc_fields" "''role'' \<in> UserDoc_fields" "''createdAt'' \<in> UserDoc_fields"
    "''id'' \<notin> UserDoc_fields"
    by (simp_all add: UserDoc_fields_def)
  note lost = create_rereads_document [OF a(1,2), of "profile_a 1000 1000"]
  note ok = create_rereads_document [OF b, of "profile_a 1000 1000"]
  from ok have dm: "dom (returned_doc (profile_a 1000 1000)) = UserDoc_fields"
    and all: "\<forall>k\<in>UserDoc_fields. returned_doc (profile_a 1000 1000) k =
        Some (case profile_a 1000 1000 k of None \<Rightarrow> JUndefined | Some v \<Rightarrow> v)"
    by simp_all
  from all f have
    "returned_doc (profile_a 1000 1000) ''uid'' = Some (JStr ''u1'')"
    "returned_doc (profile_a 1000 1000) ''role'' = Some (JStr ''USER'')"
    "returned_doc (profile_a 1000 1000) ''createdAt'' = Some (JTimestamp 1000)"
    by (simp_all add: profile_a_def)
  moreover from dm f(4) have "returned_doc (profile_a 1000 1000) ''id'' = None"
    by (auto simp: dom_def)
  moreover from lost a have "fst (create world_lost_write dto_a) =
       Inl (HttpException ''Account created but verification failed. Please contact support.''
              INTERNAL_SERVER_ERROR)"
    by simp
  moreover from ok have "fst (create world_ok dto_a) = Inr (returned_doc (profile_a 1000 1000))"
    by (simp add: world_ok_simps)
  ultimately show ?thesis using a f by (simp add: world_ok_simps)
qed

subsection \<open>C6: the session cookie\<close>

text \<open>
  C6. When \<^verbatim>\<open>authSvc.login\<close> succeeds, \<^verbatim>\<open>login\<close> returns its result and calls
  \<^verbatim>\<open>res.cookie\<close> once: the name is \<^verbatim>\<open>sp_auth\<close>, the value is the base64 encoding of the
  JSON text of \<^verbatim>\<open>{t: idToken, r: role}\<close>, and the options are \<^verbatim>\<open>httpOnly\<close>, \<^verbatim>\<open>sameSite\<close>
  \<^verbatim>\<open>lax\<close>, path \<^verbatim>\<open>/\<close>, a maximal age of twelve hours (in milliseconds) and \<^verbatim>\<open>secure\<close>
  exactly when \<^verbatim>\<open>NODE_ENV\<close> is \<^verbatim>\<open>production\<close>.
\<close>

theorem login_sets_session_cookie:
  assumes "authSvc_login w dto = Inr result"
  shows "login w dto =
     (Inr result,
      [AuthLogin dto,
       ResCookie ''sp_auth''
         (base64 (JSON_stringify [(''t'', Some (idToken result)), (''r'', user_role result)]))
         \<lparr> httpOnly = True, sameSite = ''lax'', maxAge = 12 * 60 * 60 * 1000,
           cookie_secure = (env w ''NODE_ENV'' = Some ''production''), cookie_path = ''/'' \<rparr>])"
  using assms
  by (simp add: login_def session_payload_def session_cookie_options_def split: option.splits)

text \<open>
  C6, witness: token \<^verbatim>\<open>abc\<close>, role \<^verbatim>\<open>USER\<close>, no \<^verbatim>\<open>NODE_ENV\<close>; the value is the base64
  text of \<^verbatim>\<open>{"t":"abc","r":"USER"}\<close>.
\<close>

theorem login_sets_session_cookie_witness:
  "authSvc_login world_ok dto_login = Inr \<lparr> idToken = ''abc'', user_role = Some ''USER'' \<rparr>
   \<and> login world_ok dto_login =
     (Inr \<lparr> idToken = ''abc'', user_role = Some ''USER'' \<rparr>,
      [AuthLogin dto_login,
       ResCookie ''sp_auth'' ''eyJ0IjoiYWJjIiwiciI6IlVTRVIifQ==''
         \<lparr> httpOnly = True, sameSite = ''lax'', maxAge = 43200000,
           cookie_secure = False, cookie_path = ''/'' \<rparr>])"
proof -
  have a: "authSvc_login world_ok dto_login = Inr \<lparr> idToken = ''abc'', user_role = Some ''USER'' \<rparr>"
    by (simp add: world_ok_def)
  have e: "env world_ok ''NODE_ENV'' = None"
    by (simp add: world_ok_def smtp_env_def)
  show ?thesis
    using login_sets_session_cookie [OF a] a
    by (simp add: payload_abc_USER e)
qed

subsection \<open>C7: Update of a document that does not exist\<close>

text \<open>
  C7. When the store reports no document for the id, \<^verbatim>\<open>update\<close> throws
  \<^verbatim>\<open>Account not found\<close> with status 404; the read is the only call it issued, so it
  wrote nothing and a store is left as it was.
\<close>

theorem update_missing_document:
  assumes "doc_get w ident = Inr None"
  shows "update w ident model = (Inl (HttpException ''Account not found'' NOT_FOUND), [DocGet ident])
         \<and> filter is_write (snd (update w ident model)) = []
         \<and> store_after w (snd (update w ident model)) s = s
         \<and> status_code NOT_FOUND = 404"
  using assms by (simp add: update_def findOne_def)

text \<open>C7, witness: an id the store does not know.\<close>

theorem update_missing_document_witness:
  "doc_get world_ok ''nobody'' = Inr None
   \<and> update world_ok ''nobody'' [''fullName'' \<mapsto> JStr ''B'']
       = (Inl (HttpException ''Account not found'' NOT_FOUND), [DocGet ''nobody''])"
proof -
  have a: "doc_get world_ok ''nobody'' = Inr None" by (simp add: world_ok_def)
  show ?thesis using update_missing_document [OF a] a by simp
qed

subsection \<open>C8: any error that mentions \<open>user\<close> becomes 404\<close>

text \<open>
  C8. Whatever is thrown inside the \<^verbatim>\<open>try\<close> block of the resend handler (by the lookup,
  by link generation or by the transport, see \<open>resend_try_throws_iff\<close>), if its
  message contains \<^verbatim>\<open>user\<close> the handler throws \<^verbatim>\<open>Account not found\<close> with status 404,
  not the HTTP 500 exception.
\<close>

theorem resend_user_substring_is_404:
  assumes "em \<noteq> []"
    and "AuthController_resendVerification_try w em = (Inl err, tr)"
    and "err_message err = Some msg"
    and "str_includes msg ''user''"
  shows "AuthController_resendVerification w (Some em)
           = (Inl (HttpException ''Account not found'' NOT_FOUND), tr)
         \<and> status_code NOT_FOUND = 404"
  using assms
  by (simp add: AuthController_resendVerification_def AuthController_resendVerification_catch_def
      looks_like_user_not_found_def)

text \<open>
  C8, witness: the account exists, and the SMTP server rejects the recipient with
  \<^verbatim>\<open>550 No such user here\<close>.
\<close>

theorem resend_user_substring_is_404_witness:
  "fst (AuthController_resendVerification_try world_smtp_rejects ''a@x.com'') = Inl smtp_no_such_user
   \<and> err_code smtp_no_such_user = Some ''EENVELOPE''
   \<and> err_message smtp_no_such_user = Some ''550 No such user here''
   \<and> str_includes ''550 No such user here'' ''user''
   \<and> fst (AuthController_resendVerification world_smtp_rejects (Some ''a@x.com''))
       = Inl (HttpException ''Account not found'' NOT_FOUND)"
proof -
  have g: "getUserByEmail world_smtp_rejects ''a@x.com'' = Inr (UserRecord ''u1'')"
    by (simp add: world_smtp_rejects_simps lookup_a)
  have l: "generateEmailVerificationLink world_smtp_rejects ''a@x.com''
      (actionCodeSettings world_smtp_rejects) = Inr ''https://id.example/verify?code=1''"
    by (simp add: world_smtp_rejects_simps)
  have f: "sendMail world_smtp_rejects
      \<lparr> smtp_host = ''smtp.x.com'', smtp_port = Finite 587, smtp_secure = False,
        auth_user = ''mailer'', auth_pass = ''pw'' \<rparr>
      (controller_mail world_smtp_rejects ''a@x.com'' ''https://id.example/verify?code=1'')
      = Inl smtp_no_such_user"
    by (simp add: world_smtp_rejects_simps)
  note t = resend_try_transport_failure [OF g l world_smtp_rejects_smtp f]
  have m: "err_message smtp_no_such_user = Some ''550 No such user here''"
    by (simp add: smtp_no_such_user_def)
  have c: "err_code smtp_no_such_user = Some ''EENVELOPE''"
    by (simp add: smtp_no_such_user_def)
  have i: "str_includes ''550 No such user here'' ''user''" by simp
  have n: "''a@x.com'' \<noteq> []" by simp
  from resend_user_substring_is_404 [OF n t m i]
  have "fst (AuthController_resendVerification world_smtp_rejects (Some ''a@x.com''))
       = Inl (HttpException ''Account not found'' NOT_FOUND)" by simp
  moreover from t
  have "fst (AuthController_resendVerification_try world_smtp_rejects ''a@x.com'')
       = Inl smtp_no_such_user" by simp
  ultimately show ?thesis using m c i by simp
qed

subsection \<open>C9: Update adds an \<open>id\<close> property\<close>

text \<open>
  C9, as the code has it. Let \<^verbatim>\<open>update\<close> succeed on an existing document: the stored data
  \<open>d\<close> is found, and the \<^verbatim>\<open>set\<close> of the merged object raises no error. Let the partial
  have no property \<open>id\<close>, and let the stored data have no \<open>id\<close> of its own or one equal
  to the document key (the one an earlier \<^verbatim>\<open>update\<close> wrote). Then the returned value and
  the persisted document are the same object, whose property \<open>id\<close> is the document
  key; \<open>id\<close> is not a property of the profile schema.
\<close>

theorem update_injects_id:
  assumes "doc_get w ident = Inr (Some d)"
    and "doc_set w ident ([''id'' \<mapsto> JStr ident] ++ d ++ model) = None"
    and "model ''id'' = None"
    and "d ''id'' = None \<or> d ''id'' = Some (JStr ident)"
  shows "update w ident model =
           (Inr ([''id'' \<mapsto> JStr ident] ++ d ++ model),
            [DocGet ident, DocSet ident ([''id'' \<mapsto> JStr ident] ++ d ++ model)])
         \<and> persisted w (snd (update w ident model)) ident ([''id'' \<mapsto> JStr ident] ++ d ++ model)
         \<and> acknowledged_sets w (snd (update w ident model)) ident
             = [[''id'' \<mapsto> JStr ident] ++ d ++ model]
         \<and> ([''id'' \<mapsto> JStr ident] ++ d ++ model) ''id'' = Some (JStr ident)
         \<and> ''id'' \<notin> UserDoc_fields"
proof -
  let ?doc = "[''id'' \<mapsto> JStr ident] ++ d ++ model"
  have nf: "''id'' \<notin> UserDoc_fields" by (simp add: UserDoc_fields_def)
  from assms(3,4) have idp: "?doc ''id'' = Some (JStr ident)"
    by (auto simp: map_add_def)
  have u: "update w ident model = (Inr ?doc, [DocGet ident, DocSet ident ?doc])"
    using assms(1,2) by (simp add: update_def findOne_def saveUser_def)
  have "persisted w (snd (update w ident model)) ident ?doc"
    using assms(2) by (simp add: u persisted_def)
  moreover have "acknowledged_sets w (snd (update w ident model)) ident = [?doc]"
    using assms(2) by (simp add: u)
  ultimately show ?thesis using u idp nf by simp
qed

text \<open>C9, witness: the full name of the profile created above is changed.\<close>

theorem update_injects_id_witness:
  "doc_get world_ok ''u1'' = Inr (Some (profile_a 1000 1000))
   \<and> partial_name ''id'' = None
   \<and> profile_a 1000 1000 ''id'' = None
   \<and> fst (update world_ok ''u1'' partial_name) =
       Inr ([''id'' \<mapsto> JStr ''u1''] ++ profile_a 1000 1000 ++ partial_name)
   \<and> acknowledged_sets world_ok (snd (update world_ok ''u1'' partial_name)) ''u1'' =
       [[''id'' \<mapsto> JStr ''u1''] ++ profile_a 1000 1000 ++ partial_name]
   \<and> ([''id'' \<mapsto> JStr ''u1''] ++ profile_a 1000 1000 ++ partial_name) ''id''
       = Some (JStr ''u1'')"
proof -
  have a: "doc_get world_ok ''u1'' = Inr (Some (profile_a 1000 1000))"
    by (simp add: world_ok_simps)
  have b: "doc_set world_ok ''u1''
      ([''id'' \<mapsto> JStr ''u1''] ++ profile_a 1000 1000 ++ partial_name) = None"
    by (simp add: world_ok_simps)
  have c: "partial_name ''id'' = None"
    by (simp add: partial_name_def)
  have d: "profile_a 1000 1000 ''id'' = None" by (simp add: profile_a_def)
  have d': "profile_a 1000 1000 ''id'' = None \<or> profile_a 1000 1000 ''id'' = Some (JStr ''u1'')"
    using d by simp
  from update_injects_id [OF a b c d'] a b c d show ?thesis by simp
qed

text \<open>
  C9, counterexamples to the claim as written (every successful update): a partial that
  carries its own \<open>id\<close> is spread last, and stored data that carries its own \<open>id\<close> is
  spread after the key. In both the update succeeds, and the one document persisted
  under the key \<^verbatim>\<open>u1\<close>, which is also the returned value, has an \<open>id\<close> that is not
  the key.
\<close>

theorem update_id_overridden_counterexample:
  "doc_get world_ok ''u1'' = Inr (Some (profile_a 1000 1000))
   \<and> fst (update world_ok ''u1'' partial_with_id) =
       Inr ([''id'' \<mapsto> JStr ''u1''] ++ profile_a 1000 1000 ++ partial_with_id)
   \<and> acknowledged_sets world_ok (snd (update world_ok ''u1'' partial_with_id)) ''u1'' =
       [[''id'' \<mapsto> JStr ''u1''] ++ profile_a 1000 1000 ++ partial_with_id]
   \<and> ([''id'' \<mapsto> JStr ''u1''] ++ profile_a 1000 1000 ++ partial_with_id) ''id''
       = Some (JStr ''mine'')
   \<and> JStr ''mine'' \<noteq> JStr ''u1''
   \<and> doc_get world_legacy ''u1'' = Inr (Some legacy_doc)
   \<and> fst (update world_legacy ''u1'' partial_name) =
       Inr ([''id'' \<mapsto> JStr ''u1''] ++ legacy_doc ++ partial_name)
   \<and> acknowledged_sets world_legacy (snd (update world_legacy ''u1'' partial_name)) ''u1'' =
       [[''id'' \<mapsto> JStr ''u1''] ++ legacy_doc ++ partial_name]
   \<and> ([''id'' \<mapsto> JStr ''u1''] ++ legacy_doc ++ partial_name) ''id'' = Some (JStr ''legacy'')
   \<and> JStr ''legacy'' \<noteq> JStr ''u1''"
proof -
  have a: "doc_get world_ok ''u1'' = Inr (Some (profile_a 1000 1000))"
    by (simp add: world_ok_simps)
  have u: "update world_ok ''u1'' partial_with_id =
      (Inr ([''id'' \<mapsto> JStr ''u1''] ++ profile_a 1000 1000 ++ partial_with_id),
       [DocGet ''u1'',
        DocSet ''u1'' ([''id'' \<mapsto> JStr ''u1''] ++ profile_a 1000 1000 ++ partial_with_id)])"
    using a by (simp add: update_def findOne_def saveUser_def world_ok_simps)
  have i: "([''id'' \<mapsto> JStr ''u1''] ++ profile_a 1000 1000 ++ partial_with_id) ''id''
      = Some (JStr ''mine'')"
    by (simp add: partial_with_id_def map_add_def)
  have la: "doc_get world_legacy ''u1'' = Inr (Some legacy_doc)"
    "doc_set world_legacy k x = None" for k x
    by (simp_all add: world_legacy_def world_ok_def)
  have lu: "update world_legacy ''u1'' partial_name =
      (Inr ([''id'' \<mapsto> JStr ''u1''] ++ legacy_doc ++ partial_name),
       [DocGet ''u1'', DocSet ''u1'' ([''id'' \<mapsto> JStr ''u1''] ++ legacy_doc ++ partial_name)])"
    using la by (simp add: update_def findOne_def saveUser_def)
  have li: "([''id'' \<mapsto> JStr ''u1''] ++ legacy_doc ++ partial_name) ''id'' = Some (JStr ''legacy'')"
    by (simp add: legacy_doc_def partial_name_def map_add_def)
  show ?thesis
    using a i la(1) li
    by (simp add: u lu world_ok_simps la(2))
qed

subsection \<open>C10: a falsy SMTP port\<close>

text \<open>
  C10. Let \<^verbatim>\<open>SMTP_PORT\<close> be set to a string that \<^verbatim>\<open>Number\<close> turns into \<^verbatim>\<open>NaN\<close> or zero,
  whatever host, user and password are. Then the email dispatch of the service
  (the one account creation uses) generates the link, logs it and sends nothing; a
  creation issues no call to the transport; and the resend handler, for an email
  that resolves to an account, logs the link, sends nothing and answers
  \<^verbatim>\<open>{success: true, logged: true, link}\<close>.
\<close>

theorem smtp_port_falsy_means_unconfigured:
  assumes "env w ''SMTP_PORT'' = Some p"
    and "Number w p = NaN \<or> Number w p = Finite 0"
    and "generateEmailVerificationLink w em (actionCodeSettings w) = Inr link"
    and "em \<noteq> []"
    and "getUserByEmail w em = Inr usr"
  shows "sendEmailVerification w u em =
           (Inr (), [GenerateLink em (actionCodeSettings w), Console (WarnSmtpNotConfigured link)])
         \<and> filter is_smtp (snd (create w m)) = []
         \<and> AuthController_resendVerification w (Some em) =
           (Inr \<lparr> success = True, logged = Some True, link_out = Some link \<rparr>,
            [GetUserByEmail em, GenerateLink em (actionCodeSettings w),
             Console (WarnSmtpNotConfigured link)])"
proof -
  have n: "smtp_transport w = None" by (rule smtp_port_falsy [OF assms(1,2)])
  have "sendEmailVerification w u em =
      (Inr (), [GenerateLink em (actionCodeSettings w), Console (WarnSmtpNotConfigured link)])"
    using n assms(3) by (simp add: sendEmailVerification_def sendEmailVerification_try_def)
  moreover have "filter is_smtp (snd (create w m)) = []" by (rule create_no_transport [OF n])
  moreover have "AuthController_resendVerification w (Some em) =
      (Inr \<lparr> success = True, logged = Some True, link_out = Some link \<rparr>,
       [GetUserByEmail em, GenerateLink em (actionCodeSettings w),
        Console (WarnSmtpNotConfigured link)])"
    using n assms(3,4,5)
    by (simp add: AuthController_resendVerification_def AuthController_resendVerification_try_def)
  ultimately show ?thesis by simp
qed

text \<open>C10, witness: host, user and password are present and the port is \<^verbatim>\<open>0\<close>.\<close>

theorem smtp_port_falsy_means_unconfigured_witness:
  "env world_port_zero ''SMTP_HOST'' = Some ''smtp.x.com''
   \<and> env world_port_zero ''SMTP_USER'' = Some ''mailer''
   \<and> env world_port_zero ''SMTP_PASS'' = Some ''pw''
   \<and> env world_port_zero ''SMTP_PORT'' = Some ''0''
   \<and> Number world_port_zero ''0'' = Finite 0
   \<and> fst (AuthController_resendVerification world_port_zero (Some ''a@x.com'')) =
       Inr \<lparr> success = True, logged = Some True,
             link_out = Some ''https://id.example/verify?code=1'' \<rparr>
   \<and> filter is_smtp (snd (create world_port_zero dto_a)) = []"
  using smtp_port_falsy_means_unconfigured [of world_port_zero "''0''" "''a@x.com''"
      "''https://id.example/verify?code=1''" "UserRecord ''u1''" "''u1''" dto_a]
  by (simp add: world_port_zero_simps lookup_a)

end
